theory Spec2Isabelle
  imports Main
begin

section \<open>Errors\<close>

text \<open>
  A Go \<open>error\<close> is either produced by this package with \<open>xerrors.Errorf\<close> (with or
  without a wrapped cause, the \<open>%w\<close> verb), or it comes from a collaborator: the
  container runtime's client or the standard library. Of a collaborator's error only
  the text returned by its \<open>Error()\<close> method is ever inspected. \<open>nil\<close> is \<open>None\<close> of
  \<open>error option\<close>.
\<close>

datatype error =
    External string
  | Errorf string
  | Wrapf string error

text \<open>
  \<open>Wrapf msg e\<close> stands for \<open>xerrors.Errorf("<msg>: %w", e)\<close>; its text is the message,
  a colon, a space and the text of the cause.
\<close>

fun Error :: "error \<Rightarrow> string" where
  "Error (External s) = s"
| "Error (Errorf s) = s"
| "Error (Wrapf msg e) = msg @ '': '' @ Error e"

definition ErrMissingContainer :: error where
  "ErrMissingContainer = Errorf ''missing container''"

definition errNoSuchFile :: error where
  "errNoSuchFile = Errorf ''no such file''"

section \<open>String helpers of the standard library\<close>

text \<open>
  Strings are lists of characters; one list element stands for one character (rune) of
  the Go string, which for ASCII text is one byte.
\<close>

fun HasPrefix :: "string \<Rightarrow> string \<Rightarrow> bool" where
  "HasPrefix s [] = True"
| "HasPrefix [] (p # ps) = False"
| "HasPrefix (c # s) (p # ps) = (c = p \<and> HasPrefix s ps)"

text \<open>\<open>strings.Contains(s, substr)\<close>: \<open>substr\<close> occurs somewhere within \<open>s\<close>.\<close>

fun Contains :: "string \<Rightarrow> string \<Rightarrow> bool" where
  "Contains [] substr = (substr = [])"
| "Contains (c # s) substr = (HasPrefix (c # s) substr \<or> Contains s substr)"

text \<open>
  \<open>strings.TrimLeft(s, cutset)\<close>: \<open>s\<close> with all leading characters contained in
  \<open>cutset\<close> removed. The loop stops at the first character outside the cutset.
\<close>

fun TrimLeft :: "string \<Rightarrow> string \<Rightarrow> string" where
  "TrimLeft [] cutset = []"
| "TrimLeft (c # s) cutset = (if c \<in> set cutset then TrimLeft s cutset else c # s)"

text \<open>
  \<open>filepath.Base(path)\<close> with the separator \<open>/\<close>: the last element of the path.
  Trailing separators are removed before extracting the last element; the empty
  path gives \<open>.\<close>, a path of separators only gives a single separator.
\<close>

definition Base :: "string \<Rightarrow> string" where
  "Base path =
     (if path = [] then ''.''
      else
        let stripped = rev (dropWhile (\<lambda>c. c = CHR ''/'') (rev path));
            last_elem = rev (takeWhile (\<lambda>c. c \<noteq> CHR ''/'') (rev stripped))
        in if last_elem = [] then ''/'' else last_elem)"

section \<open>Error classification\<close>

definition isPathNotFound :: "error option \<Rightarrow> bool" where
  "isPathNotFound err =
     (case err of
        None \<Rightarrow> False
      | Some e \<Rightarrow> Contains (Error e) ''No such container:path'')"

definition isContainerNotFoundError :: "error option \<Rightarrow> bool" where
  "isContainerNotFoundError err =
     (case err of
        None \<Rightarrow> False
      | Some e \<Rightarrow> Contains (Error e) ''No such container'')"

section \<open>The tar library at its interface\<close>

type_synonym byte = char

text \<open>
  \<open>tar.Header\<close>. Times are kept as integers, the two string maps as association
  lists.
\<close>

record Header =
  Typeflag :: byte
  Name :: string
  Linkname :: string
  Size :: int
  Mode :: int
  Uid :: int
  Gid :: int
  Uname :: string
  Gname :: string
  ModTime :: int
  AccessTime :: int
  ChangeTime :: int
  Devmajor :: int
  Devminor :: int
  Xattrs :: "(string \<times> string) list"
  PAXRecords :: "(string \<times> string) list"
  Format :: int

text \<open>
  What a \<open>tar.Reader\<close> over the incoming stream yields, call by call. \<open>Next\<close> returns
  \<open>io.EOF\<close> (\<open>TarEOF\<close>), another error (\<open>TarErr\<close>), or a header; after a header, the
  successive \<open>Read\<close> calls on the entry return the given chunks of payload and end with
  \<open>io.EOF\<close> (\<open>None\<close>) or with a read error. The stream is finite.
\<close>

datatype tar_stream =
    TarEOF
  | TarErr error
  | TarEntry Header "byte list list" "error option" tar_stream

text \<open>
  The content of the output buffer, as the tar writer has laid it out: the entries
  written so far, each a header with its payload, and whether the end-of-archive
  footer has been written.
\<close>

record Archive =
  records :: "(Header \<times> byte list) list"
  footer :: bool

text \<open>
  A \<open>tar.Writer\<close>: the buffer it writes to and the number of payload bytes the
  current entry still expects.
\<close>

record Writer =
  buf :: Archive
  nb :: nat

definition NewWriter :: Writer where
  "NewWriter = \<lparr>buf = \<lparr>records = [], footer = False\<rparr>, nb = 0\<rparr>"

text \<open>The decimal digits of a number, as the verb \<open>%d\<close> prints it.\<close>

fun decimal :: "nat \<Rightarrow> string" where
  "decimal n =
     (if n < 10 then [''0123456789'' ! n]
      else decimal (n div 10) @ [''0123456789'' ! (n mod 10)])"

declare decimal.simps [simp del]

definition errMissedWriting :: "nat \<Rightarrow> error" where
  "errMissedWriting n = External (''archive/tar: missed writing '' @ decimal n @ '' bytes'')"

definition ErrWriteTooLong :: error where
  "ErrWriteTooLong = External ''archive/tar: write too long''"

text \<open>
  Entries of these types carry no payload, whatever their \<open>Size\<close> says: hard link,
  symbolic link, character device, block device, directory, FIFO.
\<close>

definition isHeaderOnlyType :: "byte \<Rightarrow> bool" where
  "isHeaderOnlyType flag = (flag \<in> set ''123456'')"

definition capacity :: "Header \<Rightarrow> nat" where
  "capacity hdr = (if isHeaderOnlyType (Typeflag hdr) then 0 else nat (Size hdr))"

text \<open>
  \<open>tw.WriteHeader(hdr)\<close>: fails if the current entry is not fully written, or if the
  header cannot be encoded; which headers the library accepts is the parameter
  \<open>hv\<close> (\<open>None\<close> for an acceptable header). Otherwise the header starts a new entry
  that expects as many payload bytes as the header declares.
\<close>

definition WriteHeader :: "(Header \<Rightarrow> error option) \<Rightarrow> Writer \<Rightarrow> Header \<Rightarrow> error + Writer" where
  "WriteHeader hv tw hdr =
     (if nb tw > 0 then Inl (errMissedWriting (nb tw))
      else
        (case hv hdr of
           Some e \<Rightarrow> Inl e
         | None \<Rightarrow>
             Inr \<lparr>buf = (buf tw)\<lparr>records := records (buf tw) @ [(hdr, [])]\<rparr>,
                  nb = capacity hdr\<rparr>))"

definition append_payload :: "(Header \<times> byte list) list \<Rightarrow> byte list \<Rightarrow> (Header \<times> byte list) list" where
  "append_payload rs b =
     (case rev rs of
        [] \<Rightarrow> []
      | (h, p) # earlier \<Rightarrow> rev earlier @ [(h, p @ b)])"

text \<open>
  \<open>tw.Write(b)\<close>: \<open>ErrWriteTooLong\<close> if more bytes are written than the current
  entry still expects; otherwise the bytes are added to the current entry.
\<close>

definition Write :: "Writer \<Rightarrow> byte list \<Rightarrow> error + Writer" where
  "Write tw b =
     (if length b > nb tw then Inl ErrWriteTooLong
      else
        Inr \<lparr>buf = (buf tw)\<lparr>records := append_payload (records (buf tw)) b\<rparr>,
             nb = nb tw - length b\<rparr>)"

text \<open>
  \<open>tw.Close()\<close>: fails if the current entry is not fully written; otherwise writes the
  footer.
\<close>

definition Close :: "Writer \<Rightarrow> error + Writer" where
  "Close tw =
     (if nb tw > 0 then Inl (errMissedWriting (nb tw))
      else Inr (tw\<lparr>buf := (buf tw)\<lparr>footer := True\<rparr>\<rparr>))"

text \<open>
  \<open>io.Copy(tw, tr)\<close>: each non-empty chunk read from the entry is written to the
  writer; a failed write ends the copy with the write's error, a read error ends it
  with the read error, and the end of the entry ends it without error.
\<close>

fun Copy :: "Writer \<Rightarrow> byte list list \<Rightarrow> error option \<Rightarrow> error + Writer" where
  "Copy tw [] er = (case er of None \<Rightarrow> Inr tw | Some e \<Rightarrow> Inl e)"
| "Copy tw (c # cs) er =
     (if c = [] then Copy tw cs er
      else
        (case Write tw c of
           Inl ew \<Rightarrow> Inl ew
         | Inr tw' \<Rightarrow> Copy tw' cs er))"

section \<open>The container runtime\<close>

text \<open>
  Modelled from the spec: \<open>dockerClient\<close>, which every operation calls first and which
  is defined outside the source file at hand, opens a fresh connection to the runtime;
  the connection is released when the operation returns. Opening and releasing have no
  part in the results, so an operation takes the runtime \<open>rt\<close> itself.

  The runtime is addressed by name. Every call made to it is recorded in a trace, and
  the runtime's answer to a call may depend on all the calls made before it. A call
  answers with its values and an error, as the client's methods do; when the error is
  not \<open>nil\<close> the values are not looked at.
\<close>

datatype call =
    CallInspect string
  | CallStart string
  | CallStop string
  | CallRemove string
  | CallCopyFrom string string

text \<open>The inspection data of a container, which is stored and never looked into.\<close>

datatype ContainerJSON = ContainerJSON string

record runtime =
  ContainerInspect :: "call list \<Rightarrow> string \<Rightarrow> ContainerJSON \<times> error option"
  ContainerStart :: "call list \<Rightarrow> string \<Rightarrow> error option"
  ContainerStop :: "call list \<Rightarrow> string \<Rightarrow> error option"
  ContainerRemove :: "call list \<Rightarrow> string \<Rightarrow> error option"
  CopyFromContainer :: "call list \<Rightarrow> string \<Rightarrow> string \<Rightarrow> tar_stream \<times> error option"

section \<open>The environment and its lifecycle\<close>

text \<open>
  An operation takes the trace of the calls made so far and returns, next to its
  results, the trace extended by the calls it made.
\<close>

record Environment =
  name :: string
  cnt :: ContainerJSON

definition Start :: "runtime \<Rightarrow> Environment \<Rightarrow> call list \<Rightarrow> error option \<times> call list" where
  "Start rt env tr =
     (case ContainerStart rt tr (name env) of
        Some err \<Rightarrow> (Some (Wrapf ''failed to start container'' err), tr @ [CallStart (name env)])
      | None \<Rightarrow> (None, tr @ [CallStart (name env)]))"

definition Stop :: "runtime \<Rightarrow> Environment \<Rightarrow> call list \<Rightarrow> error option \<times> call list" where
  "Stop rt env tr =
     (case ContainerStop rt tr (name env) of
        Some err \<Rightarrow> (Some (Wrapf ''failed to stop container'' err), tr @ [CallStop (name env)])
      | None \<Rightarrow> (None, tr @ [CallStop (name env)]))"

definition Remove :: "runtime \<Rightarrow> Environment \<Rightarrow> call list \<Rightarrow> error option \<times> call list" where
  "Remove rt env tr =
     (case ContainerRemove rt tr (name env) of
        Some err \<Rightarrow> (Some (Wrapf ''failed to remove container'' err), tr @ [CallRemove (name env)])
      | None \<Rightarrow> (None, tr @ [CallRemove (name env)]))"

definition Purge :: "runtime \<Rightarrow> Environment \<Rightarrow> call list \<Rightarrow> error option \<times> call list" where
  "Purge rt env tr =
     (case Stop rt env tr of
        (Some err, tr1) \<Rightarrow> (Some err, tr1)
      | (None, tr1) \<Rightarrow>
          (case Remove rt env tr1 of
             (Some err, tr2) \<Rightarrow> (Some err, tr2)
           | (None, tr2) \<Rightarrow> (None, tr2)))"

definition FindEnvironment ::
  "runtime \<Rightarrow> string \<Rightarrow> call list \<Rightarrow> (Environment option \<times> error option) \<times> call list" where
  "FindEnvironment rt nm tr =
     (case ContainerInspect rt tr nm of
        (c, err) \<Rightarrow>
          let tr1 = tr @ [CallInspect nm] in
          if isContainerNotFoundError err then ((None, Some ErrMissingContainer), tr1)
          else
            (case err of
               Some e \<Rightarrow> ((None, Some (Wrapf ''failed to inspect container'' e)), tr1)
             | None \<Rightarrow>
                 (let env = \<lparr>name = nm, cnt = c\<rparr> in
                  (case Start rt env tr1 of
                     (Some e, tr2) \<Rightarrow> ((None, Some e), tr2)
                   | (None, tr2) \<Rightarrow> ((Some env, None), tr2)))))"

section \<open>Reading a path out of the environment\<close>

text \<open>
  The loop of \<open>readPath\<close> over the entries of the incoming archive. The result is the
  pair the function returns: the buffer (or \<open>nil\<close>) and the error (or \<open>nil\<close>).
\<close>

fun transcode ::
  "(Header \<Rightarrow> error option) \<Rightarrow> string \<Rightarrow> tar_stream \<Rightarrow> Writer \<Rightarrow> Archive option \<times> error option" where
  "transcode hv base TarEOF tw =
     (case Close tw of
        Inl e \<Rightarrow> (None, Some (Wrapf ''failed to close tar writer'' e))
      | Inr tw' \<Rightarrow> (Some (buf tw'), None))"
| "transcode hv base (TarErr e) tw =
     (None, Some (Wrapf ''failed to read from tar reader'' e))"
| "transcode hv base (TarEntry hdr chunks er rest) tw =
     (case WriteHeader hv tw (hdr\<lparr>Name := TrimLeft (Name hdr) (base @ ''/'')\<rparr>) of
        Inl e \<Rightarrow> (None, Some (Wrapf ''failed to write header'' e))
      | Inr tw1 \<Rightarrow>
          (case Copy tw1 chunks er of
             Inl e \<Rightarrow> (None, Some (Wrapf ''failed to copy'' e))
           | Inr tw2 \<Rightarrow> transcode hv base rest tw2))"

text \<open>
  \<open>readPath\<close>: the copy request, the classification of its error, and the loop with
  the basename of the path and a new writer on an empty buffer.
\<close>

definition readPath ::
  "runtime \<Rightarrow> (Header \<Rightarrow> error option) \<Rightarrow> Environment \<Rightarrow> string \<Rightarrow> call list \<Rightarrow>
     (Archive option \<times> error option) \<times> call list" where
  "readPath rt hv e path tr =
     (case CopyFromContainer rt tr (name e) path of
        (rdr, err) \<Rightarrow>
          let tr1 = tr @ [CallCopyFrom (name e) path] in
          if isPathNotFound err then ((None, Some errNoSuchFile), tr1)
          else
            (case err of
               Some x \<Rightarrow>
                 ((None,
                   Some (Wrapf (''failed to get reader for path '' @ [CHR 0x27] @ path @ [CHR 0x27]) x)),
                  tr1)
             | None \<Rightarrow> (transcode hv (Base path) rdr NewWriter, tr1)))"

section \<open>Vocabulary of the properties\<close>

text \<open>
  The entries a reader decodes from a stream, up to its end or its first error: each
  header with the whole payload read for it.
\<close>

fun entries_of :: "tar_stream \<Rightarrow> (Header \<times> byte list) list" where
  "entries_of TarEOF = []"
| "entries_of (TarErr e) = []"
| "entries_of (TarEntry hdr chunks er rest) = (hdr, concat chunks) # entries_of rest"

text \<open>
  Reading an archive back. The byte format is the tar library's business; what the
  library promises is that a reader yields the entries the writer accepted, in order,
  and then the end of the archive.
\<close>

definition redecode :: "Archive \<Rightarrow> tar_stream" where
  "redecode a = foldr (\<lambda>(h, p) rest. TarEntry h [p] None rest) (records a) TarEOF"

text \<open>
  The length of the longest leading run of \<open>n\<close> whose characters are all drawn from
  \<open>cutset\<close>, found by looking at every prefix of \<open>n\<close>.
\<close>

definition leading_run :: "string \<Rightarrow> string \<Rightarrow> nat" where
  "leading_run cutset n =
     Max (set (filter (\<lambda>k. set (take k n) \<subseteq> set cutset) [0..<Suc (length n)]))"

text \<open>
  The state of the loop of \<open>readPath\<close> after \<open>k\<close> complete iterations: the rest of the
  incoming stream and the writer. There is no such state when one of the \<open>k\<close>
  iterations failed or the stream ended before.
\<close>

fun advance ::
  "(Header \<Rightarrow> error option) \<Rightarrow> string \<Rightarrow> nat \<Rightarrow> tar_stream \<Rightarrow> Writer \<Rightarrow>
     (tar_stream \<times> Writer) option" where
  "advance hv base 0 s tw = Some (s, tw)"
| "advance hv base (Suc k) (TarEntry hdr chunks er rest) tw =
     (case WriteHeader hv tw (hdr\<lparr>Name := TrimLeft (Name hdr) (base @ ''/'')\<rparr>) of
        Inl e \<Rightarrow> None
      | Inr tw1 \<Rightarrow>
          (case Copy tw1 chunks er of
             Inl e \<Rightarrow> None
           | Inr tw2 \<Rightarrow> advance hv base k rest tw2))"
| "advance hv base (Suc k) TarEOF tw = None"
| "advance hv base (Suc k) (TarErr e) tw = None"

subsection \<open>A concrete runtime\<close>

text \<open>
  The container \<open>web1\<close> holds the directory \<open>/data/logs\<close> with the files \<open>a.log\<close> (10
  bytes) and \<open>b.log\<close> (20 bytes), and the empty directory \<open>/data/empty\<close>, for which
  the stream ends at once. The container \<open>db1\<close> exists, but it can neither be started
  nor removed. No other container exists. The runtime \<open>misreporting\<close> answers an
  inspection with the text of a missing path, the runtime \<open>copy_refused\<close> a copy
  request with the text of a missing container. The header check \<open>accept_all\<close> accepts
  every header.
\<close>

definition demo_header :: "byte \<Rightarrow> string \<Rightarrow> int \<Rightarrow> Header" where
  "demo_header flag nm sz =
     \<lparr>Typeflag = flag, Name = nm, Linkname = [], Size = sz, Mode = 420, Uid = 0, Gid = 0,
      Uname = ''root'', Gname = ''root'', ModTime = 0, AccessTime = 0, ChangeTime = 0,
      Devmajor = 0, Devminor = 0, Xattrs = [], PAXRecords = [], Format = 2\<rparr>"

definition demo_stream :: tar_stream where
  "demo_stream =
     TarEntry (demo_header (CHR ''5'') ''logs/'' 0) [] None
       (TarEntry (demo_header (CHR ''0'') ''logs/a.log'' 10) [''0123456789''] None
          (TarEntry (demo_header (CHR ''0'') ''logs/b.log'' 20) [''0123456789'', ''abcdefghij''] None
             TarEOF))"

definition no_such_container :: "string \<Rightarrow> error" where
  "no_such_container n = External (''Error: No such container: '' @ n)"

definition no_such_path :: "string \<Rightarrow> string \<Rightarrow> error" where
  "no_such_path n p = External (''Error: No such container:path: '' @ n @ '':'' @ p)"

definition demo_runtime :: runtime where
  "demo_runtime =
     \<lparr>ContainerInspect = (\<lambda>tr n.
         if n = ''web1'' \<or> n = ''db1'' then (ContainerJSON ''{}'', None)
         else (ContainerJSON [], Some (no_such_container n))),
      ContainerStart = (\<lambda>tr n.
         if n = ''web1'' then None
         else if n = ''db1'' then Some (External ''port is already allocated'')
         else Some (no_such_container n)),
      ContainerStop = (\<lambda>tr n.
         if n = ''web1'' \<or> n = ''db1'' then None else Some (no_such_container n)),
      ContainerRemove = (\<lambda>tr n.
         if n = ''web1'' then None
         else if n = ''db1'' then Some (External ''removal of container db1 is already in progress'')
         else Some (no_such_container n)),
      CopyFromContainer = (\<lambda>tr n p.
         if n = ''web1'' \<and> p = ''/data/logs'' then (demo_stream, None)
         else if n = ''web1'' \<and> p = ''/data/empty'' then (TarEOF, None)
         else (TarEOF, Some (no_such_path n p)))\<rparr>"

definition misreporting :: runtime where
  "misreporting =
     demo_runtime\<lparr>ContainerInspect := (\<lambda>tr n. (ContainerJSON [], Some (no_such_path n ''/'')))\<rparr>"

definition copy_refused :: runtime where
  "copy_refused =
     demo_runtime\<lparr>CopyFromContainer := (\<lambda>tr n p. (TarEOF, Some (no_such_container n)))\<rparr>"

definition accept_all :: "Header \<Rightarrow> error option" where
  "accept_all hdr = None"

definition web1 :: Environment where
  "web1 = \<lparr>name = ''web1'', cnt = ContainerJSON ''{}''\<rparr>"

definition db1 :: Environment where
  "db1 = \<lparr>name = ''db1'', cnt = ContainerJSON ''{}''\<rparr>"

definition ghost :: Environment where
  "ghost = \<lparr>name = ''ghost'', cnt = ContainerJSON ''{}''\<rparr>"

text \<open>The archive expected for \<open>/data/logs\<close>, and the archive without entries.\<close>

definition demo_archive :: Archive where
  "demo_archive =
     \<lparr>records =
        [(demo_header (CHR ''5'') [] 0, []),
         (demo_header (CHR ''0'') ''a.log'' 10, ''0123456789''),
         (demo_header (CHR ''0'') ''b.log'' 20, ''0123456789abcdefghij'')],
      footer = True\<rparr>"

definition empty_archive :: Archive where
  "empty_archive = \<lparr>records = [], footer = True\<rparr>"

text \<open>
  Faulty transfers: a runtime that answers every copy request with a given stream, and
  streams that break off after the root directory, carry a header that cannot be
  encoded, break off within a payload, or deliver a payload shorter than declared. The
  two writers are the states reached after the root directory and after the short
  payload.
\<close>

definition streaming :: "tar_stream \<Rightarrow> runtime" where
  "streaming s = demo_runtime\<lparr>CopyFromContainer := (\<lambda>tr n p. (s, None))\<rparr>"

definition reject_negative_size :: "Header \<Rightarrow> error option" where
  "reject_negative_size hdr =
     (if Size hdr < 0 then Some (External ''archive/tar: cannot encode header'') else None)"

definition read_fault_stream :: tar_stream where
  "read_fault_stream =
     TarEntry (demo_header (CHR ''5'') ''logs/'' 0) [] None (TarErr (External ''unexpected EOF''))"

definition bad_header_stream :: tar_stream where
  "bad_header_stream =
     TarEntry (demo_header (CHR ''5'') ''logs/'' 0) [] None
       (TarEntry (demo_header (CHR ''0'') ''logs/a.log'' (- 1)) [] None TarEOF)"

definition copy_fault_stream :: tar_stream where
  "copy_fault_stream =
     TarEntry (demo_header (CHR ''5'') ''logs/'' 0) [] None
       (TarEntry (demo_header (CHR ''0'') ''logs/a.log'' 10) [''0123'']
          (Some (External ''unexpected EOF'')) TarEOF)"

definition short_stream :: tar_stream where
  "short_stream =
     TarEntry (demo_header (CHR ''5'') ''logs/'' 0) [] None
       (TarEntry (demo_header (CHR ''0'') ''logs/a.log'' 10) [''0123''] None TarEOF)"

definition after_root :: Writer where
  "after_root =
     \<lparr>buf = \<lparr>records = [(demo_header (CHR ''5'') [] 0, [])], footer = False\<rparr>, nb = 0\<rparr>"

definition after_short :: Writer where
  "after_short =
     \<lparr>buf = \<lparr>records = [(demo_header (CHR ''5'') [] 0, []),
                         (demo_header (CHR ''0'') ''a.log'' 10, ''0123'')], footer = False\<rparr>,
      nb = 6\<rparr>"

section \<open>Properties of the string helpers\<close>

lemma TrimLeft_dropWhile: "TrimLeft s cutset = dropWhile (\<lambda>c. c \<in> set cutset) s"
  by (induction s) auto

lemma HasPrefix_iff: "HasPrefix s p \<longleftrightarrow> (\<exists>ss. s = p @ ss)"
  by (induction s p rule: HasPrefix.induct) auto

lemma Contains_iff: "Contains s sub \<longleftrightarrow> (\<exists>ps ss. s = ps @ sub @ ss)"
proof (induction s)
  case Nil
  then show ?case by auto
next
  case (Cons c s)
  show ?case
  proof
    assume "Contains (c # s) sub"
    then consider "HasPrefix (c # s) sub" | "Contains s sub" by auto
    then show "\<exists>ps ss. c # s = ps @ sub @ ss"
    proof cases
      case 1
      then obtain ss where "c # s = sub @ ss" by (auto simp: HasPrefix_iff)
      then have "c # s = [] @ sub @ ss" by simp
      then show ?thesis by blast
    next
      case 2
      then obtain ps ss where "s = ps @ sub @ ss" using Cons.IH by blast
      then have "c # s = (c # ps) @ sub @ ss" by simp
      then show ?thesis by blast
    qed
  next
    assume "\<exists>ps ss. c # s = ps @ sub @ ss"
    then obtain ps ss where eq: "c # s = ps @ sub @ ss" by blast
    show "Contains (c # s) sub"
    proof (cases ps)
      case Nil
      then have "HasPrefix (c # s) sub" using eq by (auto simp: HasPrefix_iff)
      then show ?thesis by simp
    next
      case (Cons a ps')
      then have "s = ps' @ sub @ ss" using eq by simp
      then have "Contains s sub" using Cons.IH by blast
      then show ?thesis by simp
    qed
  qed
qed

lemma Contains_longer_marker: "Contains s (p @ q) \<Longrightarrow> Contains s p"
proof -
  assume "Contains s (p @ q)"
  then obtain ps ss where "s = ps @ (p @ q) @ ss" by (auto simp: Contains_iff)
  then have "s = ps @ p @ (q @ ss)" by simp
  then show ?thesis unfolding Contains_iff by blast
qed

section \<open>The name rewrite\<close>

text \<open>
  C10. For a fixed basename the rewrite of a name is idempotent: stripping the leading
  characters drawn from the basename and the slash a second time changes nothing. With
  another basename a second strip can go further: after \<open>logs\<close>, the basename \<open>a\<close>
  takes the \<open>a\<close> off \<open>a.log\<close>.
\<close>

theorem TrimLeft_idempotent:
  "TrimLeft (TrimLeft N (B @ ''/'')) (B @ ''/'') = TrimLeft N (B @ ''/'')
   \<and> TrimLeft (TrimLeft ''logs/a.log'' (''logs'' @ ''/'')) (''a'' @ ''/'')
       \<noteq> TrimLeft ''logs/a.log'' (''logs'' @ ''/'')"
proof
  show "TrimLeft (TrimLeft N (B @ ''/'')) (B @ ''/'') = TrimLeft N (B @ ''/'')"
    by (induction N) auto
  show "TrimLeft (TrimLeft ''logs/a.log'' (''logs'' @ ''/'')) (''a'' @ ''/'')
          \<noteq> TrimLeft ''logs/a.log'' (''logs'' @ ''/'')"
    by simp
qed

section \<open>The two not-found classifications\<close>

lemma transcode_error_wrapped:
  "snd (transcode hv base s tw) = Some x \<Longrightarrow> \<exists>msg cause. x = Wrapf msg cause"
  by (induction s arbitrary: tw) (auto split: sum.splits)

lemma readPath_sentinel_iff:
  "snd (fst (readPath rt hv e P tr)) = Some errNoSuchFile \<longleftrightarrow>
     isPathNotFound (snd (CopyFromContainer rt tr (name e) P))"
proof (cases "CopyFromContainer rt tr (name e) P")
  case (Pair rdr ce)
  show ?thesis
  proof (cases "isPathNotFound ce")
    case True
    with Pair show ?thesis by (simp add: readPath_def Let_def)
  next
    case False
    show ?thesis
    proof (cases ce)
      case None
      have "snd (transcode hv (Base P) rdr NewWriter) \<noteq> Some errNoSuchFile"
        using transcode_error_wrapped[of hv "Base P" rdr NewWriter errNoSuchFile]
        by (auto simp: errNoSuchFile_def)
      with Pair False None show ?thesis by (simp add: readPath_def Let_def)
    next
      case (Some x)
      with Pair False show ?thesis by (simp add: readPath_def Let_def errNoSuchFile_def)
    qed
  qed
qed

lemma readPath_never_missing_container:
  "snd (fst (readPath rt hv e P tr)) \<noteq> Some ErrMissingContainer"
proof (cases "CopyFromContainer rt tr (name e) P")
  case (Pair rdr ce)
  show ?thesis
  proof (cases "isPathNotFound ce")
    case True
    with Pair show ?thesis
      by (simp add: readPath_def Let_def errNoSuchFile_def ErrMissingContainer_def)
  next
    case False
    show ?thesis
    proof (cases ce)
      case None
      have "snd (transcode hv (Base P) rdr NewWriter) \<noteq> Some ErrMissingContainer"
        using transcode_error_wrapped[of hv "Base P" rdr NewWriter ErrMissingContainer]
        by (auto simp: ErrMissingContainer_def)
      with Pair False None show ?thesis by (simp add: readPath_def Let_def)
    next
      case (Some x)
      with Pair False show ?thesis by (simp add: readPath_def Let_def ErrMissingContainer_def)
    qed
  qed
qed

lemma FindEnvironment_sentinel_iff:
  "snd (fst (FindEnvironment rt nm tr)) = Some ErrMissingContainer \<longleftrightarrow>
     isContainerNotFoundError (snd (ContainerInspect rt tr nm))"
  by (cases "ContainerInspect rt tr nm")
     (auto simp: FindEnvironment_def Let_def Start_def ErrMissingContainer_def split: option.splits)

lemma FindEnvironment_never_no_such_file:
  "snd (fst (FindEnvironment rt nm tr)) \<noteq> Some errNoSuchFile"
  by (cases "ContainerInspect rt tr nm")
     (auto simp: FindEnvironment_def Let_def Start_def ErrMissingContainer_def errNoSuchFile_def
           split: option.splits)

text \<open>
  C3, as stated: no error is classified both as path-not-found and as
  container-not-found, so that one error text cannot bring about both sentinels. The
  text the runtime's client produces for a missing path is classified as both; as the
  answer to an inspection it makes \<open>FindEnvironment\<close> return \<open>ErrMissingContainer\<close>, as
  the answer to a copy request it makes \<open>readPath\<close> return \<open>errNoSuchFile\<close>.
\<close>

theorem not_found_classes_overlap:
  "isPathNotFound (Some (no_such_path ''web1'' ''/''))
   \<and> isContainerNotFoundError (Some (no_such_path ''web1'' ''/''))
   \<and> snd (ContainerInspect misreporting [] ''web1'') = Some (no_such_path ''web1'' ''/'')
   \<and> fst (FindEnvironment misreporting ''web1'' []) = (None, Some ErrMissingContainer)
   \<and> snd (CopyFromContainer misreporting [] (name web1) ''/'') = Some (no_such_path ''web1'' ''/'')
   \<and> fst (readPath misreporting accept_all web1 ''/'' []) = (None, Some errNoSuchFile)"
  by (simp add: isPathNotFound_def isContainerNotFoundError_def no_such_path_def misreporting_def
      demo_runtime_def web1_def FindEnvironment_def readPath_def)

text \<open>
  C3, amended. The two classifications are different but not disjoint: every error
  classified as path-not-found is also classified as container-not-found, since the
  text looked for by the first contains the text looked for by the second; the
  converse fails. The sentinels are kept apart by the place of the call, not by the
  text of the error. \<open>FindEnvironment\<close> returns \<open>ErrMissingContainer\<close> exactly when the
  error of the inspection is classified as container-not-found, hence also for a
  path-not-found text, and it never returns \<open>errNoSuchFile\<close>. \<open>readPath\<close> returns
  \<open>errNoSuchFile\<close> exactly when the error of the copy request is classified as
  path-not-found, and it never returns \<open>ErrMissingContainer\<close>: a copy error that is
  classified as container-not-found only comes back wrapped.
\<close>

theorem path_not_found_is_container_not_found:
  "(isPathNotFound err \<longrightarrow> isContainerNotFoundError err)
   \<and> (isPathNotFound (snd (ContainerInspect rt tr nm)) \<longrightarrow>
        fst (FindEnvironment rt nm tr) = (None, Some ErrMissingContainer))
   \<and> isContainerNotFoundError (Some (no_such_container ''web1''))
   \<and> \<not> isPathNotFound (Some (no_such_container ''web1''))
   \<and> (snd (fst (FindEnvironment rt nm tr)) = Some ErrMissingContainer \<longleftrightarrow>
        isContainerNotFoundError (snd (ContainerInspect rt tr nm)))
   \<and> snd (fst (FindEnvironment rt nm tr)) \<noteq> Some errNoSuchFile
   \<and> (snd (fst (readPath rt hv e P tr2)) = Some errNoSuchFile \<longleftrightarrow>
        isPathNotFound (snd (CopyFromContainer rt tr2 (name e) P)))
   \<and> (isPathNotFound (snd (CopyFromContainer rt tr2 (name e) P)) \<longrightarrow>
        fst (readPath rt hv e P tr2) = (None, Some errNoSuchFile))
   \<and> snd (fst (readPath rt hv e P tr2)) \<noteq> Some ErrMissingContainer
   \<and> (\<forall>x. snd (CopyFromContainer rt tr2 (name e) P) = Some x \<and> \<not> isPathNotFound (Some x) \<longrightarrow>
        fst (readPath rt hv e P tr2) =
          (None, Some (Wrapf (''failed to get reader for path '' @ [CHR 0x27] @ P @ [CHR 0x27]) x)))"
proof -
  have sub: "isPathNotFound x \<Longrightarrow> isContainerNotFoundError x" for x
  proof (cases x)
    case None
    assume "isPathNotFound x"
    with None show ?thesis by (simp add: isPathNotFound_def)
  next
    case (Some e)
    assume "isPathNotFound x"
    with Some have "Contains (Error e) (''No such container'' @ '':path'')"
      by (simp add: isPathNotFound_def)
    then have "Contains (Error e) ''No such container''"
      by (rule Contains_longer_marker)
    with Some show ?thesis by (simp add: isContainerNotFoundError_def)
  qed
  have find: "fst (FindEnvironment rt nm tr) = (None, Some ErrMissingContainer)"
    if "isPathNotFound (snd (ContainerInspect rt tr nm))"
  proof -
    from that have "isContainerNotFoundError (snd (ContainerInspect rt tr nm))" by (rule sub)
    then show ?thesis
      by (cases "ContainerInspect rt tr nm") (simp add: FindEnvironment_def Let_def)
  qed
  have only: "isContainerNotFoundError (Some (no_such_container ''web1''))
      \<and> \<not> isPathNotFound (Some (no_such_container ''web1''))"
    by (simp add: isPathNotFound_def isContainerNotFoundError_def no_such_container_def)
  have rd: "fst (readPath rt hv e P tr2) = (None, Some errNoSuchFile)"
    if "isPathNotFound (snd (CopyFromContainer rt tr2 (name e) P))"
    using that by (cases "CopyFromContainer rt tr2 (name e) P") (simp add: readPath_def Let_def)
  have wr: "fst (readPath rt hv e P tr2) =
          (None, Some (Wrapf (''failed to get reader for path '' @ [CHR 0x27] @ P @ [CHR 0x27]) x))"
    if "snd (CopyFromContainer rt tr2 (name e) P) = Some x \<and> \<not> isPathNotFound (Some x)" for x
    using that by (cases "CopyFromContainer rt tr2 (name e) P") (simp add: readPath_def Let_def)
  from sub find only rd wr
    FindEnvironment_sentinel_iff [of rt nm tr] FindEnvironment_never_no_such_file [of rt nm tr]
    readPath_sentinel_iff [of rt hv e P tr2] readPath_never_missing_container [of rt hv e P tr2]
  show ?thesis by blast
qed

theorem path_not_found_is_container_not_found_witness:
  "isPathNotFound (Some (no_such_path ''web1'' ''/data/nope''))
   \<and> isContainerNotFoundError (Some (no_such_path ''web1'' ''/data/nope''))
   \<and> isPathNotFound (snd (ContainerInspect misreporting [] ''web1''))
   \<and> fst (FindEnvironment misreporting ''web1'' []) = (None, Some ErrMissingContainer)
   \<and> isPathNotFound (snd (CopyFromContainer misreporting [] (name web1) ''/''))
   \<and> fst (readPath misreporting accept_all web1 ''/'' []) = (None, Some errNoSuchFile)
   \<and> snd (CopyFromContainer copy_refused [] (name web1) ''/data/logs'') =
       Some (no_such_container ''web1'')
   \<and> isContainerNotFoundError (Some (no_such_container ''web1''))
   \<and> \<not> isPathNotFound (Some (no_such_container ''web1''))
   \<and> fst (readPath copy_refused accept_all web1 ''/data/logs'' []) =
       (None, Some (Wrapf (''failed to get reader for path '' @ [CHR 0x27] @ ''/data/logs'' @ [CHR 0x27])
          (no_such_container ''web1'')))
   \<and> snd (fst (readPath copy_refused accept_all web1 ''/data/logs'' [])) \<noteq> Some errNoSuchFile
   \<and> snd (fst (readPath copy_refused accept_all web1 ''/data/logs'' [])) \<noteq> Some ErrMissingContainer"
proof -
  have a: "isPathNotFound (Some (no_such_path ''web1'' ''/data/nope''))"
    by (simp add: isPathNotFound_def no_such_path_def)
  have b: "isPathNotFound (snd (ContainerInspect misreporting [] ''web1''))"
    by (simp add: misreporting_def isPathNotFound_def no_such_path_def)
  have c: "isPathNotFound (snd (CopyFromContainer misreporting [] (name web1) ''/''))"
    by (simp add: misreporting_def demo_runtime_def web1_def isPathNotFound_def no_such_path_def)
  have d: "snd (CopyFromContainer copy_refused [] (name web1) ''/data/logs'') =
       Some (no_such_container ''web1'')"
    by (simp add: copy_refused_def web1_def)
  note m = path_not_found_is_container_not_found
      [of "Some (no_such_path ''web1'' ''/data/nope'')" misreporting "[]" "''web1''"
          accept_all web1 "''/''" "[]"]
  note r = path_not_found_is_container_not_found
      [of "Some (no_such_path ''web1'' ''/data/nope'')" copy_refused "[]" "''web1''"
          accept_all web1 "''/data/logs''" "[]"]
  from r have n: "\<not> isPathNotFound (Some (no_such_container ''web1''))" by blast
  from r d n have w: "fst (readPath copy_refused accept_all web1 ''/data/logs'' []) =
       (None, Some (Wrapf (''failed to get reader for path '' @ [CHR 0x27] @ ''/data/logs'' @ [CHR 0x27])
          (no_such_container ''web1'')))"
    by blast
  from r have "snd (fst (readPath copy_refused accept_all web1 ''/data/logs'' [])) = Some errNoSuchFile
      \<longleftrightarrow> isPathNotFound (snd (CopyFromContainer copy_refused [] (name web1) ''/data/logs''))"
    by blast
  with n have s: "snd (fst (readPath copy_refused accept_all web1 ''/data/logs'' [])) \<noteq> Some errNoSuchFile"
    unfolding d by blast
  from a b c d n w s m r show ?thesis by blast
qed

section \<open>Lifecycle operations\<close>

text \<open>
  C8. When the inspection fails with an error classified as container-not-found,
  \<open>FindEnvironment\<close> returns \<open>ErrMissingContainer\<close> and the only call made to the
  runtime is the inspection: the container is not started. Whenever \<open>FindEnvironment\<close>
  returns a handle, it returns no error, the start request has been made right after
  the inspection, and the runtime answered it without error. When the start request
  fails, no handle is returned.
\<close>

theorem FindEnvironment_missing_and_started:
  "(isContainerNotFoundError (snd (ContainerInspect rt tr nm)) \<longrightarrow>
      FindEnvironment rt nm tr = ((None, Some ErrMissingContainer), tr @ [CallInspect nm]))
   \<and> (\<forall>env err tr'. FindEnvironment rt nm tr = ((Some env, err), tr') \<longrightarrow>
        err = None
        \<and> tr' = tr @ [CallInspect nm, CallStart nm]
        \<and> ContainerStart rt (tr @ [CallInspect nm]) nm = None
        \<and> env = \<lparr>name = nm, cnt = fst (ContainerInspect rt tr nm)\<rparr>)
   \<and> (\<forall>x. snd (ContainerInspect rt tr nm) = None
          \<and> ContainerStart rt (tr @ [CallInspect nm]) nm = Some x \<longrightarrow>
        FindEnvironment rt nm tr =
          ((None, Some (Wrapf ''failed to start container'' x)), tr @ [CallInspect nm, CallStart nm]))"
proof (intro conjI allI impI)
  assume "isContainerNotFoundError (snd (ContainerInspect rt tr nm))"
  then show "FindEnvironment rt nm tr = ((None, Some ErrMissingContainer), tr @ [CallInspect nm])"
    by (cases "ContainerInspect rt tr nm") (simp add: FindEnvironment_def Let_def)
next
  fix env err tr'
  assume ok: "FindEnvironment rt nm tr = ((Some env, err), tr')"
  obtain c ie where insp: "ContainerInspect rt tr nm = (c, ie)"
    by (cases "ContainerInspect rt tr nm")
  from ok insp have nf: "\<not> isContainerNotFoundError ie"
    by (auto simp: FindEnvironment_def Let_def)
  from ok insp nf have ie: "ie = None"
    by (cases ie) (auto simp: FindEnvironment_def Let_def)
  show "err = None" "tr' = tr @ [CallInspect nm, CallStart nm]"
    "ContainerStart rt (tr @ [CallInspect nm]) nm = None"
    "env = \<lparr>name = nm, cnt = fst (ContainerInspect rt tr nm)\<rparr>"
    using ok insp nf ie
    by (auto simp: FindEnvironment_def Let_def Start_def split: option.splits)
next
  fix x
  assume a: "snd (ContainerInspect rt tr nm) = None
          \<and> ContainerStart rt (tr @ [CallInspect nm]) nm = Some x"
  then have "\<not> isContainerNotFoundError (snd (ContainerInspect rt tr nm))"
    by (simp add: isContainerNotFoundError_def)
  with a show "FindEnvironment rt nm tr =
          ((None, Some (Wrapf ''failed to start container'' x)), tr @ [CallInspect nm, CallStart nm])"
    by (cases "ContainerInspect rt tr nm") (simp add: FindEnvironment_def Let_def Start_def)
qed

theorem FindEnvironment_missing_and_started_witness:
  "isContainerNotFoundError (snd (ContainerInspect demo_runtime [] ''ghost''))
   \<and> FindEnvironment demo_runtime ''ghost'' [] =
       ((None, Some ErrMissingContainer), [CallInspect ''ghost''])
   \<and> FindEnvironment demo_runtime ''web1'' [] =
       ((Some web1, None), [CallInspect ''web1'', CallStart ''web1''])
   \<and> ContainerStart demo_runtime [CallInspect ''web1''] ''web1'' = None
   \<and> snd (ContainerInspect demo_runtime [] ''db1'') = None
   \<and> ContainerStart demo_runtime [CallInspect ''db1''] ''db1'' = Some (External ''port is already allocated'')
   \<and> FindEnvironment demo_runtime ''db1'' [] =
       ((None, Some (Wrapf ''failed to start container'' (External ''port is already allocated''))),
        [CallInspect ''db1'', CallStart ''db1''])"
proof -
  have g: "isContainerNotFoundError (snd (ContainerInspect demo_runtime [] ''ghost''))"
    by (simp add: demo_runtime_def isContainerNotFoundError_def no_such_container_def)
  have w: "FindEnvironment demo_runtime ''web1'' [] =
       ((Some web1, None), [CallInspect ''web1'', CallStart ''web1''])"
    by (simp add: FindEnvironment_def demo_runtime_def isContainerNotFoundError_def Start_def web1_def)
  have d: "snd (ContainerInspect demo_runtime [] ''db1'') = None
     \<and> ContainerStart demo_runtime [CallInspect ''db1''] ''db1'' = Some (External ''port is already allocated'')"
    by (simp add: demo_runtime_def)
  from g FindEnvironment_missing_and_started [of demo_runtime "[]" "''ghost''"]
  have 1: "FindEnvironment demo_runtime ''ghost'' [] =
       ((None, Some ErrMissingContainer), [CallInspect ''ghost''])" by simp
  from w FindEnvironment_missing_and_started [of demo_runtime "[]" "''web1''"]
  have 2: "ContainerStart demo_runtime [CallInspect ''web1''] ''web1'' = None" by simp
  from d FindEnvironment_missing_and_started [of demo_runtime "[]" "''db1''"]
  have 3: "FindEnvironment demo_runtime ''db1'' [] =
       ((None, Some (Wrapf ''failed to start container'' (External ''port is already allocated''))),
        [CallInspect ''db1'', CallStart ''db1''])" by simp
  from g w d 1 2 3 show ?thesis by simp
qed

text \<open>
  C9. \<open>Purge\<close> calls \<open>Stop\<close> first. If \<open>Stop\<close> returns an error, \<open>Purge\<close> returns that very
  error and the runtime has received the stop request only. If \<open>Stop\<close> succeeds, \<open>Purge\<close>
  returns what \<open>Remove\<close> returns, and the runtime has received the stop request and then
  the remove request. \<open>Purge\<close> succeeds exactly when both succeed.
\<close>

theorem Purge_stop_then_remove:
  "(\<forall>err tr1. Stop rt env tr = (Some err, tr1) \<longrightarrow>
        Purge rt env tr = (Some err, tr1) \<and> tr1 = tr @ [CallStop (name env)])
   \<and> (\<forall>tr1. Stop rt env tr = (None, tr1) \<longrightarrow>
        Purge rt env tr = Remove rt env tr1
        \<and> snd (Purge rt env tr) = tr @ [CallStop (name env), CallRemove (name env)])
   \<and> (fst (Purge rt env tr) = None \<longleftrightarrow>
        fst (Stop rt env tr) = None \<and> fst (Remove rt env (snd (Stop rt env tr))) = None)"
proof (intro conjI allI impI)
  fix err tr1
  assume "Stop rt env tr = (Some err, tr1)"
  then show "Purge rt env tr = (Some err, tr1)" "tr1 = tr @ [CallStop (name env)]"
    by (auto simp: Purge_def Stop_def split: option.splits)
next
  fix tr1
  assume s: "Stop rt env tr = (None, tr1)"
  then show "Purge rt env tr = Remove rt env tr1"
    by (cases "Remove rt env tr1") (auto simp: Purge_def split: option.splits)
  from s show "snd (Purge rt env tr) = tr @ [CallStop (name env), CallRemove (name env)]"
    by (auto simp: Purge_def Stop_def Remove_def split: option.splits)
next
  show "fst (Purge rt env tr) = None \<longleftrightarrow>
        fst (Stop rt env tr) = None \<and> fst (Remove rt env (snd (Stop rt env tr))) = None"
    by (auto simp: Purge_def Stop_def Remove_def split: option.splits)
qed

theorem Purge_stop_then_remove_witness:
  "Stop demo_runtime ghost [] =
      (Some (Wrapf ''failed to stop container'' (no_such_container ''ghost'')), [CallStop ''ghost''])
   \<and> Purge demo_runtime ghost [] =
      (Some (Wrapf ''failed to stop container'' (no_such_container ''ghost'')), [CallStop ''ghost''])
   \<and> Stop demo_runtime db1 [] = (None, [CallStop ''db1''])
   \<and> Purge demo_runtime db1 [] =
      (Some (Wrapf ''failed to remove container''
         (External ''removal of container db1 is already in progress'')),
       [CallStop ''db1'', CallRemove ''db1''])
   \<and> Stop demo_runtime web1 [] = (None, [CallStop ''web1''])
   \<and> Purge demo_runtime web1 [] = (None, [CallStop ''web1'', CallRemove ''web1''])"
proof -
  have g: "Stop demo_runtime ghost [] =
      (Some (Wrapf ''failed to stop container'' (no_such_container ''ghost'')), [CallStop ''ghost''])"
    by (simp add: Stop_def demo_runtime_def ghost_def)
  have d: "Stop demo_runtime db1 [] = (None, [CallStop ''db1''])"
    by (simp add: Stop_def demo_runtime_def db1_def)
  have dr: "Remove demo_runtime db1 [CallStop ''db1''] =
      (Some (Wrapf ''failed to remove container''
         (External ''removal of container db1 is already in progress'')),
       [CallStop ''db1'', CallRemove ''db1''])"
    by (simp add: Remove_def demo_runtime_def db1_def)
  have w: "Stop demo_runtime web1 [] = (None, [CallStop ''web1''])"
    by (simp add: Stop_def demo_runtime_def web1_def)
  have wr: "Remove demo_runtime web1 [CallStop ''web1''] =
      (None, [CallStop ''web1'', CallRemove ''web1''])"
    by (simp add: Remove_def demo_runtime_def web1_def)
  from g Purge_stop_then_remove [of demo_runtime ghost "[]"]
  have 1: "Purge demo_runtime ghost [] =
      (Some (Wrapf ''failed to stop container'' (no_such_container ''ghost'')), [CallStop ''ghost''])"
    by blast
  from d dr Purge_stop_then_remove [of demo_runtime db1 "[]"]
  have 2: "Purge demo_runtime db1 [] =
      (Some (Wrapf ''failed to remove container''
         (External ''removal of container db1 is already in progress'')),
       [CallStop ''db1'', CallRemove ''db1''])"
    by simp
  from w wr Purge_stop_then_remove [of demo_runtime web1 "[]"]
  have 3: "Purge demo_runtime web1 [] = (None, [CallStop ''web1'', CallRemove ''web1''])"
    by simp
  from g d w 1 2 3 show ?thesis by simp
qed

section \<open>Reading a path: the copy request\<close>

text \<open>
  C4. When the copy request fails with an error classified as path-not-found,
  \<open>readPath\<close> returns no buffer and the error \<open>errNoSuchFile\<close>, which wraps nothing.
\<close>

theorem readPath_no_such_file:
  "isPathNotFound (snd (CopyFromContainer rt tr (name e) P)) \<Longrightarrow>
     readPath rt hv e P tr = ((None, Some errNoSuchFile), tr @ [CallCopyFrom (name e) P])
     \<and> (\<forall>msg cause. errNoSuchFile \<noteq> Wrapf msg cause)"
  by (cases "CopyFromContainer rt tr (name e) P") (simp add: readPath_def Let_def errNoSuchFile_def)

theorem readPath_no_such_file_witness:
  "isPathNotFound (snd (CopyFromContainer demo_runtime [] (name web1) ''/data/nope''))
   \<and> readPath demo_runtime accept_all web1 ''/data/nope'' [] =
       ((None, Some errNoSuchFile), [CallCopyFrom ''web1'' ''/data/nope''])"
proof -
  have h: "isPathNotFound (snd (CopyFromContainer demo_runtime [] (name web1) ''/data/nope''))"
    by (simp add: demo_runtime_def web1_def isPathNotFound_def no_such_path_def)
  from h readPath_no_such_file [OF h, of accept_all] show ?thesis
    by (simp add: web1_def)
qed

section \<open>Reading a path: the loop over the entries\<close>

lemma leading_run_takeWhile:
  "leading_run cutset n = length (takeWhile (\<lambda>c. c \<in> set cutset) n)"
proof -
  let ?P = "\<lambda>c. c \<in> set cutset"
  let ?m = "length (takeWhile ?P n)"
  let ?K = "set (filter (\<lambda>k. set (take k n) \<subseteq> set cutset) [0..<Suc (length n)])"
  have fin: "finite ?K" by (rule finite_set)
  have K: "k \<in> ?K \<longleftrightarrow> k \<le> length n \<and> set (take k n) \<subseteq> set cutset" for k
    by (simp only: set_filter set_upt mem_Collect_eq atLeastLessThan_iff less_Suc_eq_le) simp
  have take_m: "take ?m n = takeWhile ?P n"
    by (rule takeWhile_eq_take[symmetric])
  have "?m \<le> length n" by (rule length_takeWhile_le)
  moreover have "set (take ?m n) \<subseteq> set cutset"
    unfolding take_m by (auto dest: set_takeWhileD)
  ultimately have mem: "?m \<in> ?K" unfolding K by simp
  have ub: "k \<le> ?m" if "k \<in> ?K" for k
  proof (rule ccontr)
    assume "\<not> k \<le> ?m"
    then have lt: "?m < k" by simp
    from that have k: "k \<le> length n" "set (take k n) \<subseteq> set cutset" unfolding K by simp_all
    from lt k(1) have mlt: "?m < length n" by simp
    then have "\<not> ?P (n ! ?m)" by (rule nth_length_takeWhile)
    moreover have "n ! ?m \<in> set (take k n)"
      using lt mlt k(1) by (auto simp: in_set_conv_nth intro!: exI[of _ ?m])
    ultimately show False using k(2) by auto
  qed
  show ?thesis unfolding leading_run_def
    by (rule Max_eqI[OF fin ub mem])
qed

lemma TrimLeft_leading_run: "TrimLeft n cutset = drop (leading_run cutset n) n"
  unfolding TrimLeft_dropWhile leading_run_takeWhile by (rule dropWhile_eq_drop)

lemma append_payload_snoc: "append_payload (rs @ [(h, p)]) b = rs @ [(h, p @ b)]"
  by (simp add: append_payload_def)

lemma Write_records:
  "Write tw c = Inr tw' \<Longrightarrow> records (buf tw) = rs @ [(h, p)] \<Longrightarrow>
     records (buf tw') = rs @ [(h, p @ c)]"
  by (auto simp: Write_def append_payload_snoc split: if_splits)

lemma Copy_records:
  "Copy tw cs er = Inr tw' \<Longrightarrow> records (buf tw) = rs @ [(h, p)] \<Longrightarrow>
     records (buf tw') = rs @ [(h, p @ concat cs)]"
proof (induction cs arbitrary: tw p)
  case Nil
  then show ?case by (auto split: option.splits)
next
  case (Cons c cs)
  show ?case
  proof (cases "c = []")
    case True
    with Cons show ?thesis by simp
  next
    case False
    with Cons.prems(1) obtain tw1 where w: "Write tw c = Inr tw1" and c: "Copy tw1 cs er = Inr tw'"
      by (auto split: sum.splits)
    from Write_records[OF w Cons.prems(2)] have "records (buf tw1) = rs @ [(h, p @ c)]" .
    from Cons.IH[OF c this] show ?thesis by simp
  qed
qed

lemma WriteHeader_records:
  "WriteHeader hv tw hdr = Inr tw' \<Longrightarrow> records (buf tw') = records (buf tw) @ [(hdr, [])]"
  by (auto simp: WriteHeader_def split: if_splits option.splits)

lemma transcode_records:
  "transcode hv base s tw = (Some a, err) \<Longrightarrow>
     records a = records (buf tw) @
       map (\<lambda>(h, p). (h\<lparr>Name := TrimLeft (Name h) (base @ ''/'')\<rparr>, p)) (entries_of s)
     \<and> footer a \<and> err = None"
proof (induction s arbitrary: tw)
  case TarEOF
  then show ?case by (auto simp: Close_def split: if_splits)
next
  case (TarErr e)
  then show ?case by simp
next
  case (TarEntry hdr chunks er rest)
  let ?h = "hdr\<lparr>Name := TrimLeft (Name hdr) (base @ ''/'')\<rparr>"
  from TarEntry.prems obtain tw1 tw2 where
    wh: "WriteHeader hv tw ?h = Inr tw1" and
    cp: "Copy tw1 chunks er = Inr tw2" and
    rest: "transcode hv base rest tw2 = (Some a, err)"
    by (auto split: sum.splits)
  from WriteHeader_records[OF wh] have "records (buf tw1) = records (buf tw) @ [(?h, [])]" .
  from Copy_records[OF cp this] have "records (buf tw2) = records (buf tw) @ [(?h, concat chunks)]"
    by simp
  with TarEntry.IH[OF rest] show ?case by simp
qed

lemma transcode_shape:
  "(\<exists>a. transcode hv base s tw = (Some a, None)) \<or> (\<exists>x. transcode hv base s tw = (None, Some x))"
  by (induction s arbitrary: tw) (auto split: sum.splits)

lemma transcode_advance:
  "advance hv base k s tw = Some (s', tw') \<Longrightarrow> transcode hv base s tw = transcode hv base s' tw'"
proof (induction hv base k s tw rule: advance.induct)
  case (1 hv base s tw)
  then show ?case by simp
next
  case (2 hv base k hdr chunks er rest tw)
  then show ?case by (auto split: sum.splits)
next
  case (3 hv base k tw)
  then show ?case by simp
next
  case (4 hv base k e tw)
  then show ?case by simp
qed

lemma readPath_copied:
  "CopyFromContainer rt tr (name e) P = (rdr, None) \<Longrightarrow>
     readPath rt hv e P tr = (transcode hv (Base P) rdr NewWriter, tr @ [CallCopyFrom (name e) P])"
  by (simp add: readPath_def Let_def isPathNotFound_def)

lemma readPath_success:
  assumes "readPath rt hv e P tr = ((Some a, err), tr')"
  shows "transcode hv (Base P) (fst (CopyFromContainer rt tr (name e) P)) NewWriter = (Some a, err)"
proof -
  obtain rdr ce where c: "CopyFromContainer rt tr (name e) P = (rdr, ce)"
    by (cases "CopyFromContainer rt tr (name e) P")
  from assms c have "ce = None"
    by (cases ce) (auto simp: readPath_def Let_def split: if_splits)
  with assms c show ?thesis by (simp add: readPath_copied)
qed

lemma readPath_records:
  assumes "readPath rt hv e P tr = ((Some a, err), tr')"
  shows "records a =
       map (\<lambda>(h, p). (h\<lparr>Name := TrimLeft (Name h) (Base P @ ''/'')\<rparr>, p))
         (entries_of (fst (CopyFromContainer rt tr (name e) P)))"
    and "footer a" and "err = None"
  using transcode_records[OF readPath_success[OF assms]] by (simp_all add: NewWriter_def)


text \<open>The concrete runtime, evaluated.\<close>

lemma demo_run:
  "readPath demo_runtime accept_all web1 ''/data/logs'' [] =
     ((Some demo_archive, None), [CallCopyFrom ''web1'' ''/data/logs''])"
  by (simp add: readPath_def demo_runtime_def web1_def isPathNotFound_def Base_def demo_stream_def
      NewWriter_def WriteHeader_def accept_all_def capacity_def isHeaderOnlyType_def demo_header_def
      Write_def append_payload_def Close_def demo_archive_def)

lemma demo_copy: "fst (CopyFromContainer demo_runtime [] (name web1) ''/data/logs'') = demo_stream"
  by (simp add: demo_runtime_def web1_def)

lemma demo_base: "Base ''/data/logs'' = ''logs''"
  by (simp add: Base_def)

lemmas demo_eval =
  streaming_def demo_runtime_def web1_def Base_def demo_header_def NewWriter_def WriteHeader_def
  reject_negative_size_def accept_all_def capacity_def isHeaderOnlyType_def Write_def
  append_payload_def Close_def errMissedWriting_def ErrWriteTooLong_def decimal.simps

text \<open>
  C1. Whenever \<open>readPath\<close> returns an archive for the path \<open>P\<close>, the names of its
  entries are, in order, the names of the entries decoded from the incoming stream,
  each with its longest leading run of characters drawn from the basename of \<open>P\<close> and
  the slash removed. Only the left end of a name is touched.
\<close>

theorem readPath_strips_leading_run:
  assumes "readPath rt hv e P tr = ((Some a, err), tr')"
  shows "map (\<lambda>(h, p). Name h) (records a) =
         map (\<lambda>(h, p). drop (leading_run (Base P @ ''/'') (Name h)) (Name h))
           (entries_of (fst (CopyFromContainer rt tr (name e) P)))"
  unfolding readPath_records(1)[OF assms]
  by (simp add: TrimLeft_leading_run case_prod_unfold)

theorem readPath_strips_leading_run_witness:
  "readPath demo_runtime accept_all web1 ''/data/logs'' [] =
     ((Some demo_archive, None), [CallCopyFrom ''web1'' ''/data/logs''])
   \<and> map (\<lambda>(h, p). Name h) (records demo_archive) =
       map (\<lambda>(h, p). drop (leading_run ''logs/'' (Name h)) (Name h)) (entries_of demo_stream)
   \<and> map (\<lambda>(h, p). Name h) (entries_of demo_stream) = [''logs/'', ''logs/a.log'', ''logs/b.log'']
   \<and> map (\<lambda>(h, p). Name h) (records demo_archive) = ['''', ''a.log'', ''b.log'']
   \<and> drop (leading_run ''logs/'' ''logs/slogs_extra'') ''logs/slogs_extra'' = ''_extra''"
proof -
  from readPath_strips_leading_run [OF demo_run]
  have "map (\<lambda>(h, p). Name h) (records demo_archive) =
       map (\<lambda>(h, p). drop (leading_run ''logs/'' (Name h)) (Name h)) (entries_of demo_stream)"
    by (simp add: demo_copy demo_base)
  moreover have "map (\<lambda>(h, p). Name h) (entries_of demo_stream) =
       [''logs/'', ''logs/a.log'', ''logs/b.log'']"
    by (simp add: demo_stream_def demo_header_def)
  moreover have "map (\<lambda>(h, p). Name h) (records demo_archive) = ['''', ''a.log'', ''b.log'']"
    by (simp add: demo_archive_def demo_header_def)
  moreover have "drop (leading_run ''logs/'' ''logs/slogs_extra'') ''logs/slogs_extra'' = ''_extra''"
    unfolding TrimLeft_leading_run [symmetric] by simp
  ultimately show ?thesis using demo_run by simp
qed



text \<open>
  C5. \<open>readPath\<close> returns a buffer exactly when it returns no error. After any number of
  complete iterations of the loop: if the next header cannot be read, if the rewritten
  header cannot be written, if copying the payload fails, or if at the end of the
  stream the writer cannot be closed, \<open>readPath\<close> returns no buffer and the error of
  the failing step wrapped with the message of that step.
\<close>

theorem readPath_all_or_nothing:
  assumes "CopyFromContainer rt tr (name e) P = (rdr, None)"
    and "advance hv (Base P) k rdr NewWriter = Some (s, tw)"
  shows "(fst (fst (readPath rt hv e P tr)) = None) = (snd (fst (readPath rt hv e P tr)) \<noteq> None)
     \<and> (\<forall>x. s = TarErr x \<longrightarrow>
          fst (readPath rt hv e P tr) = (None, Some (Wrapf ''failed to read from tar reader'' x)))
     \<and> (\<forall>hdr chunks er rest x.
          s = TarEntry hdr chunks er rest
          \<and> WriteHeader hv tw (hdr\<lparr>Name := TrimLeft (Name hdr) (Base P @ ''/'')\<rparr>) = Inl x \<longrightarrow>
          fst (readPath rt hv e P tr) = (None, Some (Wrapf ''failed to write header'' x)))
     \<and> (\<forall>hdr chunks er rest tw1 x.
          s = TarEntry hdr chunks er rest
          \<and> WriteHeader hv tw (hdr\<lparr>Name := TrimLeft (Name hdr) (Base P @ ''/'')\<rparr>) = Inr tw1
          \<and> Copy tw1 chunks er = Inl x \<longrightarrow>
          fst (readPath rt hv e P tr) = (None, Some (Wrapf ''failed to copy'' x)))
     \<and> (\<forall>x. s = TarEOF \<and> Close tw = Inl x \<longrightarrow>
          fst (readPath rt hv e P tr) = (None, Some (Wrapf ''failed to close tar writer'' x)))"
proof -
  have r: "fst (readPath rt hv e P tr) = transcode hv (Base P) s tw"
    using readPath_copied[OF assms(1)] transcode_advance[OF assms(2)] by simp
  have shape: "(fst (transcode hv (Base P) s tw) = None) = (snd (transcode hv (Base P) s tw) \<noteq> None)"
    using transcode_shape[of hv "Base P" s tw] by auto
  show ?thesis unfolding r using shape by auto
qed

theorem readPath_all_or_nothing_witness:
  "CopyFromContainer (streaming read_fault_stream) [] (name web1) ''/data/logs'' = (read_fault_stream, None)
   \<and> advance accept_all (Base ''/data/logs'') 1 read_fault_stream NewWriter =
       Some (TarErr (External ''unexpected EOF''), after_root)
   \<and> fst (readPath (streaming read_fault_stream) accept_all web1 ''/data/logs'' []) =
       (None, Some (Wrapf ''failed to read from tar reader'' (External ''unexpected EOF'')))
   \<and> fst (readPath (streaming bad_header_stream) reject_negative_size web1 ''/data/logs'' []) =
       (None, Some (Wrapf ''failed to write header'' (External ''archive/tar: cannot encode header'')))
   \<and> fst (readPath (streaming copy_fault_stream) accept_all web1 ''/data/logs'' []) =
       (None, Some (Wrapf ''failed to copy'' (External ''unexpected EOF'')))
   \<and> advance accept_all (Base ''/data/logs'') 2 short_stream NewWriter = Some (TarEOF, after_short)
   \<and> Close after_short = Inl (External ''archive/tar: missed writing 6 bytes'')
   \<and> fst (readPath (streaming short_stream) accept_all web1 ''/data/logs'' []) =
       (None, Some (Wrapf ''failed to close tar writer''
          (External ''archive/tar: missed writing 6 bytes'')))"
proof -
  have c: "CopyFromContainer (streaming s) [] (name web1) ''/data/logs'' = (s, None)" for s
    by (simp add: streaming_def)
  have a1: "advance accept_all (Base ''/data/logs'') 1 read_fault_stream NewWriter =
       Some (TarErr (External ''unexpected EOF''), after_root)"
    by (simp add: read_fault_stream_def after_root_def demo_eval)
  have a2: "advance reject_negative_size (Base ''/data/logs'') 1 bad_header_stream NewWriter =
       Some (TarEntry (demo_header (CHR ''0'') ''logs/a.log'' (- 1)) [] None TarEOF, after_root)"
    by (simp add: bad_header_stream_def after_root_def demo_eval)
  have w2: "WriteHeader reject_negative_size after_root
       ((demo_header (CHR ''0'') ''logs/a.log'' (- 1))
          \<lparr>Name := TrimLeft (Name (demo_header (CHR ''0'') ''logs/a.log'' (- 1))) (Base ''/data/logs'' @ ''/'')\<rparr>) =
       Inl (External ''archive/tar: cannot encode header'')"
    by (simp add: after_root_def demo_eval)
  have a3: "advance accept_all (Base ''/data/logs'') 1 copy_fault_stream NewWriter =
       Some (TarEntry (demo_header (CHR ''0'') ''logs/a.log'' 10) [''0123'']
          (Some (External ''unexpected EOF'')) TarEOF, after_root)"
    by (simp add: copy_fault_stream_def after_root_def demo_eval)
  have w3: "WriteHeader accept_all after_root
       ((demo_header (CHR ''0'') ''logs/a.log'' 10)
          \<lparr>Name := TrimLeft (Name (demo_header (CHR ''0'') ''logs/a.log'' 10)) (Base ''/data/logs'' @ ''/'')\<rparr>) =
       Inr \<lparr>buf = \<lparr>records = [(demo_header (CHR ''5'') [] 0, []),
                         (demo_header (CHR ''0'') ''a.log'' 10, [])], footer = False\<rparr>,
            nb = 10\<rparr>"
    by (simp add: after_root_def demo_eval)
  have c3: "Copy \<lparr>buf = \<lparr>records = [(demo_header (CHR ''5'') [] 0, []),
                         (demo_header (CHR ''0'') ''a.log'' 10, [])], footer = False\<rparr>,
            nb = 10\<rparr> [''0123''] (Some (External ''unexpected EOF'')) = Inl (External ''unexpected EOF'')"
    by (simp add: demo_eval)
  have a4: "advance accept_all (Base ''/data/logs'') 2 short_stream NewWriter = Some (TarEOF, after_short)"
    by (simp add: short_stream_def after_short_def demo_eval numeral_2_eq_2)
  have c4: "Close after_short = Inl (External ''archive/tar: missed writing 6 bytes'')"
    by (simp add: after_short_def demo_eval)
  from readPath_all_or_nothing [OF c a1]
  have 1: "fst (readPath (streaming read_fault_stream) accept_all web1 ''/data/logs'' []) =
       (None, Some (Wrapf ''failed to read from tar reader'' (External ''unexpected EOF'')))"
    by blast
  from readPath_all_or_nothing [OF c a2] w2
  have 2: "fst (readPath (streaming bad_header_stream) reject_negative_size web1 ''/data/logs'' []) =
       (None, Some (Wrapf ''failed to write header'' (External ''archive/tar: cannot encode header'')))"
    by blast
  from readPath_all_or_nothing [OF c a3] w3 c3
  have 3: "fst (readPath (streaming copy_fault_stream) accept_all web1 ''/data/logs'' []) =
       (None, Some (Wrapf ''failed to copy'' (External ''unexpected EOF'')))"
    by blast
  from readPath_all_or_nothing [OF c a4] c4
  have 4: "fst (readPath (streaming short_stream) accept_all web1 ''/data/logs'' []) =
       (None, Some (Wrapf ''failed to close tar writer''
          (External ''archive/tar: missed writing 6 bytes'')))"
    by blast
  from c a1 1 2 3 a4 c4 4 show ?thesis by blast
qed

text \<open>
  C6. Whenever \<open>readPath\<close> returns an archive, an incoming entry whose name is stripped
  down to the empty name is in the archive at its position, with the empty name, its
  other header fields and its payload: the archive has as many entries as the incoming
  stream.
\<close>

theorem readPath_keeps_empty_name:
  assumes "readPath rt hv e P tr = ((Some a, err), tr')"
    and "i < length (entries_of (fst (CopyFromContainer rt tr (name e) P)))"
    and "TrimLeft (Name (fst (entries_of (fst (CopyFromContainer rt tr (name e) P)) ! i)))
           (Base P @ ''/'') = []"
  shows "length (records a) = length (entries_of (fst (CopyFromContainer rt tr (name e) P)))
     \<and> Name (fst (records a ! i)) = []
     \<and> (fst (records a ! i))
          \<lparr>Name := Name (fst (entries_of (fst (CopyFromContainer rt tr (name e) P)) ! i))\<rparr> =
        fst (entries_of (fst (CopyFromContainer rt tr (name e) P)) ! i)
     \<and> snd (records a ! i) = snd (entries_of (fst (CopyFromContainer rt tr (name e) P)) ! i)"
  unfolding readPath_records(1)[OF assms(1)]
  using assms(2,3) by (simp add: case_prod_unfold)

theorem readPath_keeps_empty_name_witness:
  "readPath demo_runtime accept_all web1 ''/data/logs'' [] =
     ((Some demo_archive, None), [CallCopyFrom ''web1'' ''/data/logs''])
   \<and> Name (fst (entries_of demo_stream ! 0)) = ''logs/''
   \<and> TrimLeft (Name (fst (entries_of demo_stream ! 0))) (Base ''/data/logs'' @ ''/'') = []
   \<and> length (records demo_archive) = 3
   \<and> Name (fst (records demo_archive ! 0)) = []
   \<and> Typeflag (fst (records demo_archive ! 0)) = CHR ''5''"
proof -
  have i: "0 < length (entries_of (fst (CopyFromContainer demo_runtime [] (name web1) ''/data/logs'')))"
    by (simp add: demo_copy demo_stream_def)
  have n: "Name (fst (entries_of demo_stream ! 0)) = ''logs/''"
    by (simp add: demo_stream_def demo_header_def)
  have t: "TrimLeft (Name (fst (entries_of
        (fst (CopyFromContainer demo_runtime [] (name web1) ''/data/logs'')) ! 0)))
           (Base ''/data/logs'' @ ''/'') = []"
    by (simp add: demo_copy demo_base n)
  have l: "length (entries_of demo_stream) = 3"
    by (simp add: demo_stream_def)
  have f: "Typeflag (fst (records demo_archive ! 0)) = CHR ''5''"
    by (simp add: demo_archive_def demo_header_def)
  from readPath_keeps_empty_name [OF demo_run i t] n t l f demo_run show ?thesis
    by (simp add: demo_copy)
qed

text \<open>
  C7. When the incoming stream ends before its first entry, \<open>readPath\<close> returns without
  error an archive that has no entries and is finished by its footer; reading it back
  yields the end of the archive at once.
\<close>

theorem readPath_empty_stream:
  assumes "CopyFromContainer rt tr (name e) P = (TarEOF, None)"
  shows "readPath rt hv e P tr = ((Some empty_archive, None), tr @ [CallCopyFrom (name e) P])
     \<and> records empty_archive = [] \<and> footer empty_archive
     \<and> redecode empty_archive = TarEOF"
  using assms
  by (simp add: readPath_def Let_def isPathNotFound_def NewWriter_def Close_def empty_archive_def
      redecode_def)

theorem readPath_empty_stream_witness:
  "CopyFromContainer demo_runtime [] (name web1) ''/data/empty'' = (TarEOF, None)
   \<and> readPath demo_runtime accept_all web1 ''/data/empty'' [] =
       ((Some empty_archive, None), [CallCopyFrom ''web1'' ''/data/empty''])
   \<and> redecode empty_archive = TarEOF"
proof -
  have c: "CopyFromContainer demo_runtime [] (name web1) ''/data/empty'' = (TarEOF, None)"
    by (simp add: demo_runtime_def web1_def)
  from c readPath_empty_stream [OF c, of accept_all] show ?thesis
    by (simp add: web1_def)
qed

end
